theory Spec2Isabelle
  imports Main "HOL-Library.Word"
begin

unbundle bit_operations_syntax

section \<open>Error values\<close>

text \<open>
  Go's \<^verbatim>\<open>error\<close> interface is modelled by a datatype of the error values profile.go
  can produce; a nil error is \<open>None\<close> of \<open>error option\<close>.
  \<^item> \<open>PathError op path errno\<close> is what the os package returns (\<^verbatim>\<open>*os.PathError\<close>);
  \<^item> \<open>Errorf format args\<close> is \<^verbatim>\<open>fmt.Errorf(format, args...)\<close>, the format kept as
    written in the source, each argument a string or an error;
  \<^item> \<open>ErrMissingAccessKey\<close> and \<open>ErrMissingSecretKey\<close> are the package's sentinels
    (declared outside profile.go);
  \<^item> \<open>YamlError\<close> is an error of the YAML library;
  \<^item> \<open>MultiError errs\<close> is \<^verbatim>\<open>*multierror.Error\<close> with its \<^verbatim>\<open>Errors\<close> slice.
\<close>

datatype errno = ENOENT | EACCES | ENOTDIR | EEXIST | EISDIR

datatype error =
    PathError string string errno
  | Errorf string "(string + error) list"
  | ErrMissingAccessKey
  | ErrMissingSecretKey
  | YamlError string
  | MultiError "error list"

text \<open>
  \<^verbatim>\<open>multierror.Append(err, errs...)\<close> of hashicorp/go-multierror: when \<^verbatim>\<open>err\<close> is
  already a \<^verbatim>\<open>*multierror.Error\<close> the given errors are appended to its list, each
  multierror among them flattened; otherwise a new multierror is started from \<^verbatim>\<open>err\<close>
  (when it is not nil) followed by the given errors.
\<close>

fun flatten_error :: "error \<Rightarrow> error list" where
  "flatten_error (MultiError es) = es"
| "flatten_error e = [e]"

definition multierror_Append :: "error option \<Rightarrow> error list \<Rightarrow> error" where
  "multierror_Append err errs =
     (case err of
        Some (MultiError es) \<Rightarrow> MultiError (es @ concat (map flatten_error errs))
      | Some e \<Rightarrow> MultiError (concat (map flatten_error (e # errs)))
      | None \<Rightarrow> MultiError (concat (map flatten_error errs)))"

section \<open>The data model\<close>

text \<open>
  \<^verbatim>\<open>ssh.Profile\<close> and \<^verbatim>\<open>ssh.Config\<close> with the fields profile.go uses. The values of
  \<^verbatim>\<open>Mods\<close> are pointers, so an entry of the map may hold nil.
\<close>

record ssh_Profile =
  Identity :: string
  Tunnel :: string
  Tunnels :: "string list"

record ssh_Config =
  Mods :: "string \<rightharpoonup> ssh_Profile option"

text \<open>
  The global configuration (\<^verbatim>\<open>Config\<close>, declared outside profile.go), of which profile.go
  reads the region only.
\<close>

record Config =
  config_Region :: string

record Profile =
  AWSAccessKeyId :: string
  AWSSecretAccessKey :: string
  Region :: string
  SSH :: ssh_Config
  global :: "Config option"
  overwrite :: bool

text \<open>
  \<^verbatim>\<open>Server\<close> (declared outside profile.go): the attributes of an EC2 instance, its lane
  tag and the SSH profile attached to it, a pointer that may be nil.
\<close>

record Server =
  ID :: string
  Name :: string
  Lane :: string
  profile :: "ssh_Profile option"

section \<open>The operating system\<close>

text \<open>
  \<^verbatim>\<open>os.FileMode\<close> is a \<^verbatim>\<open>uint32\<close>: the nine permission bits and, above them, the type
  bits, of which \<^verbatim>\<open>os.ModeDir\<close> is bit 31. Go's octal literals are written in
  hexadecimal here: \<^verbatim>\<open>0700 = 0x1C0\<close>, \<^verbatim>\<open>0070 = 0x38\<close>, \<^verbatim>\<open>0007 = 0x7\<close>, \<^verbatim>\<open>0600 = 0x180\<close>,
  \<^verbatim>\<open>0777 = 0x1FF\<close>.
\<close>

type_synonym FileMode = "32 word"

definition ModeDir :: FileMode where
  "ModeDir = 0x80000000"

definition IsDir :: "FileMode \<Rightarrow> bool" where
  "IsDir m = (m AND ModeDir \<noteq> 0)"

definition Perm :: "FileMode \<Rightarrow> FileMode" where
  "Perm m = m AND 0x1FF"

record node =
  Mode :: FileMode
  Data :: string

datatype printed =
    PermissionReport string error
  | NoProfileWarning Server string
  | ProfileWritten string string

text \<open>
  The state the program runs in: for every path either the file or directory found there
  or the reason why \<^verbatim>\<open>os.Stat\<close> fails on it, the environment variables, and what has been
  printed to standard output so far. The entries of \<open>stdout\<close> are the \<^verbatim>\<open>fmt.Printf\<close> calls
  of profile.go with their arguments:
  \<^item> \<open>PermissionReport prefix result\<close> for
    \<^verbatim>\<open>"%s: checking profile permissions, %s\n\n"\<close>,
  \<^item> \<open>NoProfileWarning svr lane\<close> for \<^verbatim>\<open>"WARNING: no profile found for %s in lane %q\n"\<close>,
  \<^item> \<open>ProfileWritten name dest\<close> for \<^verbatim>\<open>"Profile %q written to %s\n"\<close>.
\<close>

record world =
  files :: "string \<Rightarrow> errno + node"
  environ :: "string \<rightharpoonup> string"
  stdout :: "printed list"

text \<open>A call either returns or ends the process with \<^verbatim>\<open>os.Exit(code)\<close>.\<close>

datatype 'a outcome = Exit int | Return 'a

definition fmt_Printf :: "world \<Rightarrow> printed \<Rightarrow> world" where
  "fmt_Printf w line = w\<lparr>stdout := stdout w @ [line]\<rparr>"

definition os_Stat :: "world \<Rightarrow> string \<Rightarrow> error + node" where
  "os_Stat w path =
     (case files w path of
        Inl e \<Rightarrow> Inl (PathError ''stat'' path e)
      | Inr n \<Rightarrow> Inr n)"

text \<open>\<^verbatim>\<open>os.Getenv\<close> returns the empty string for a variable that is not set.\<close>

definition os_Getenv :: "world \<Rightarrow> string \<Rightarrow> string" where
  "os_Getenv w key = (case environ w key of None \<Rightarrow> [] | Some v \<Rightarrow> v)"

subsection \<open>Paths (path/filepath on Unix)\<close>

definition is_sep :: "char \<Rightarrow> bool" where
  "is_sep c = (c = CHR ''/'')"

fun split_sep :: "string \<Rightarrow> string list" where
  "split_sep [] = [[]]"
| "split_sep (c # cs) =
     (if is_sep c then [] # split_sep cs
      else (case split_sep cs of
              [] \<Rightarrow> [[c]]
            | e # es \<Rightarrow> (c # e) # es))"

fun join_sep :: "string list \<Rightarrow> string" where
  "join_sep [] = []"
| "join_sep [e] = e"
| "join_sep (e # es) = e @ ''/'' @ join_sep es"

text \<open>
  \<^verbatim>\<open>filepath.Clean\<close>: empty and \<^verbatim>\<open>.\<close> elements are dropped, a \<^verbatim>\<open>..\<close> removes the element
  before it, is dropped at the root, and is kept at the start of a relative path.
\<close>

fun clean_elems :: "bool \<Rightarrow> string list \<Rightarrow> string list \<Rightarrow> string list" where
  "clean_elems rooted out [] = out"
| "clean_elems rooted out (e # es) =
     (if e = [] \<or> e = ''.'' then clean_elems rooted out es
      else if e = ''..'' then
        (if out \<noteq> [] \<and> last out \<noteq> ''..'' then clean_elems rooted (butlast out) es
         else if rooted then clean_elems rooted out es
         else clean_elems rooted (out @ [e]) es)
      else clean_elems rooted (out @ [e]) es)"

definition filepath_Clean :: "string \<Rightarrow> string" where
  "filepath_Clean path =
     (case path of
        [] \<Rightarrow> ''.''
      | c # _ \<Rightarrow>
          (let rooted = is_sep c;
               out = clean_elems rooted [] (split_sep path)
           in if rooted then ''/'' @ join_sep out
              else if out = [] then ''.''
              else join_sep out))"

text \<open>
  \<^verbatim>\<open>filepath.Join\<close> joins the elements from the first non-empty one on and cleans the
  result; \<^verbatim>\<open>filepath.Dir\<close> cleans what stands before the last element.
\<close>

definition filepath_Join :: "string list \<Rightarrow> string" where
  "filepath_Join elem =
     (case dropWhile (\<lambda>e. e = []) elem of
        [] \<Rightarrow> []
      | es \<Rightarrow> filepath_Clean (join_sep es))"

definition filepath_Dir :: "string \<Rightarrow> string" where
  "filepath_Dir path = filepath_Clean (rev (dropWhile (\<lambda>c. \<not> is_sep c) (rev path)))"

subsection \<open>Reading and writing files\<close>

text \<open>
  \<^verbatim>\<open>ioutil.ReadFile\<close> returns the bytes of a file. \<^verbatim>\<open>ioutil.WriteFile(name, data, perm)\<close>
  creates the file with permissions \<^verbatim>\<open>perm\<close> when it does not exist and otherwise
  truncates it before writing, without changing its permissions. \<^verbatim>\<open>os.Mkdir\<close> creates
  one directory with the permission bits \<^verbatim>\<open>perm\<close>. The process's umask is taken to be 0:
  a created file or directory has the permission bits that were asked for. The access
  rights of the process are not modelled: a call that succeeds here may be refused by
  the operating system (\<^verbatim>\<open>EACCES\<close> on a file the process may not write), so the facts
  below say what holds when a call has succeeded and never that a call succeeds.
\<close>

definition ioutil_ReadFile :: "world \<Rightarrow> string \<Rightarrow> error + string" where
  "ioutil_ReadFile w name =
     (case files w name of
        Inl e \<Rightarrow> Inl (PathError ''open'' name e)
      | Inr n \<Rightarrow>
          (if IsDir (Mode n) then Inl (PathError ''read'' name EISDIR)
           else Inr (Data n)))"

definition ioutil_WriteFile :: "world \<Rightarrow> string \<Rightarrow> string \<Rightarrow> FileMode \<Rightarrow> error + world" where
  "ioutil_WriteFile w name data perm =
     (case files w name of
        Inr n \<Rightarrow>
          (if IsDir (Mode n) then Inl (PathError ''open'' name EISDIR)
           else Inr (w\<lparr>files := (files w)(name := Inr (n\<lparr>Data := data\<rparr>))\<rparr>))
      | Inl ENOENT \<Rightarrow>
          Inr (w\<lparr>files := (files w)(name := Inr \<lparr>Mode = Perm perm, Data = data\<rparr>)\<rparr>)
      | Inl e \<Rightarrow> Inl (PathError ''open'' name e))"

definition os_Mkdir :: "world \<Rightarrow> string \<Rightarrow> FileMode \<Rightarrow> error + world" where
  "os_Mkdir w name perm =
     (case files w name of
        Inr n \<Rightarrow> Inl (PathError ''mkdir'' name EEXIST)
      | Inl ENOENT \<Rightarrow>
          Inr (w\<lparr>files := (files w)(name := Inr \<lparr>Mode = ModeDir OR Perm perm, Data = []\<rparr>)\<rparr>)
      | Inl e \<Rightarrow> Inl (PathError ''mkdir'' name e))"

text \<open>
  \<^verbatim>\<open>os.MkdirAll(path, perm)\<close>, after the standard library's own code: nothing to do when
  \<^verbatim>\<open>path\<close> is a directory, an error when it is a file; otherwise the parent (the path
  without its trailing separators, its last element and the separator before it) is
  created first when there is one, then \<^verbatim>\<open>path\<close> itself with \<^verbatim>\<open>os.Mkdir\<close>; an error of
  \<^verbatim>\<open>os.Mkdir\<close> is ignored when \<^verbatim>\<open>path\<close> is a directory all the same.
\<close>

definition parent_prefix :: "string \<Rightarrow> string" where
  "parent_prefix path =
     rev (dropWhile (\<lambda>c. \<not> is_sep c) (dropWhile is_sep (rev path)))"

lemma length_parent_prefix: "length (parent_prefix path) \<le> length path"
proof -
  have "length (dropWhile (\<lambda>c. \<not> is_sep c) (dropWhile is_sep (rev path)))
      \<le> length (dropWhile is_sep (rev path))"
    by (rule length_dropWhile_le)
  also have "\<dots> \<le> length (rev path)"
    by (rule length_dropWhile_le)
  finally show ?thesis
    by (simp add: parent_prefix_def)
qed

definition mkdir_checked :: "world \<Rightarrow> string \<Rightarrow> FileMode \<Rightarrow> error + world" where
  "mkdir_checked w path perm =
     (case os_Mkdir w path perm of
        Inl err \<Rightarrow>
          (case os_Stat w path of
             Inr dir \<Rightarrow> if IsDir (Mode dir) then Inr w else Inl err
           | Inl err1 \<Rightarrow> Inl err)
      | Inr w' \<Rightarrow> Inr w')"

function os_MkdirAll :: "world \<Rightarrow> string \<Rightarrow> FileMode \<Rightarrow> error + world" where
  "os_MkdirAll w path perm =
     (case os_Stat w path of
        Inr dir \<Rightarrow>
          (if IsDir (Mode dir) then Inr w
           else Inl (PathError ''mkdir'' path ENOTDIR))
      | Inl err0 \<Rightarrow>
          (if 1 < length (parent_prefix path)
           then (case os_MkdirAll w (butlast (parent_prefix path)) perm of
                   Inl err \<Rightarrow> Inl err
                 | Inr w1 \<Rightarrow> mkdir_checked w1 path perm)
           else mkdir_checked w path perm))"
  by pat_completeness auto

termination
proof (relation "measure (\<lambda>(w, path, perm). length path)")
  show "wf (measure (\<lambda>(w, path, perm). length path))"
    by simp
next
  fix w :: world and path :: string and perm :: FileMode and err0 :: error
  assume "1 < length (parent_prefix path)"
  moreover have "length (parent_prefix path) \<le> length path"
    by (rule length_parent_prefix)
  ultimately show "((w, butlast (parent_prefix path), perm), (w, path, perm))
      \<in> measure (\<lambda>(w, path, perm). length path)"
    by simp
qed

text \<open>
  The equation of \<open>os_MkdirAll\<close> calls itself on the right: it is unfolded by hand, one
  call at a time.
\<close>

declare os_MkdirAll.simps [simp del]

section \<open>Permission checks\<close>

text \<open>
  \<^verbatim>\<open>CheckPermissions(path)\<close> returns \<^verbatim>\<open>(fatal, result)\<close>. The three tests on the mode are
  \<^verbatim>\<open>(mode&0700)>>6 <= 3\<close>, \<^verbatim>\<open>(mode&0070)>>3 != 0\<close> and \<^verbatim>\<open>mode&0007 != 0\<close>.
\<close>

definition CheckPermissions :: "world \<Rightarrow> string \<Rightarrow> bool \<times> error option" where
  "CheckPermissions w path =
     (case os_Stat w path of
        Inl err \<Rightarrow> (True, Some (multierror_Append None [err]))
      | Inr pStats \<Rightarrow>
          (let mode = Mode pStats;
               fatal = False;
               result = None;
               (fatal, result) =
                 (if drop_bit 6 (mode AND 0x1C0) \<le> 3
                  then (True, Some (multierror_Append result
                          [Errorf ''%s is not user-accessible'' [Inl path]]))
                  else (fatal, result));
               result =
                 (if drop_bit 3 (mode AND 0x38) \<noteq> 0
                  then Some (multierror_Append result
                          [Errorf ''%s is group-accessible'' [Inl path]])
                  else result);
               result =
                 (if mode AND 0x7 \<noteq> 0
                  then Some (multierror_Append result
                          [Errorf ''%s is world-accessible'' [Inl path]])
                  else result)
           in (fatal, result)))"

text \<open>
  \<^verbatim>\<open>CheckProfilePermissions(path)\<close>: both assignments to \<^verbatim>\<open>result\<close> are
  \<^verbatim>\<open>multierror.Append\<close> of one argument, as in the source.
\<close>

definition CheckProfilePermissions :: "world \<Rightarrow> string \<Rightarrow> unit outcome \<times> world" where
  "CheckProfilePermissions w path =
     (let result = None;
          (dFatal, dErr) = CheckPermissions w (filepath_Dir path);
          result = (if dErr \<noteq> None then Some (multierror_Append dErr []) else result);
          (pFatal, pErr) = CheckPermissions w path;
          result = (if pErr \<noteq> None then Some (multierror_Append pErr []) else result);
          prefix = ''WARNING'';
          fatal = (dFatal \<or> pFatal);
          prefix = (if fatal then ''ERROR'' else prefix);
          w = (case result of
                 Some r \<Rightarrow> fmt_Printf w (PermissionReport prefix r)
               | None \<Rightarrow> w)
      in if fatal then (Exit 1, w) else (Return (), w))"

section \<open>Profiles\<close>

text \<open>
  \<^verbatim>\<open>GetProfilePath(name, checkPerms)\<close>. \<^verbatim>\<open>CONFIG_DIR\<close> is declared outside profile.go and
  is a parameter here.
\<close>

definition GetProfilePath :: "string \<Rightarrow> world \<Rightarrow> string \<Rightarrow> bool \<Rightarrow> string outcome \<times> world" where
  "GetProfilePath CONFIG_DIR w name checkPerms =
     (let path = filepath_Join [CONFIG_DIR, name @ ''.yml'']
      in if checkPerms
         then (case CheckProfilePermissions w path of
                 (Exit code, w') \<Rightarrow> (Exit code, w')
               | (Return u, w') \<Rightarrow> (Return path, w'))
         else (Return path, w))"


text \<open>
  \<^verbatim>\<open>Validate\<close> returns its error together with the profile as the method leaves it.
\<close>

definition Validate :: "world \<Rightarrow> Profile \<Rightarrow> error option \<times> Profile" where
  "Validate w this =
     (if AWSAccessKeyId this = [] then (Some ErrMissingAccessKey, this)
      else if AWSSecretAccessKey this = [] then (Some ErrMissingSecretKey, this)
      else (case global this of
              Some g \<Rightarrow>
                (if Region this = [] then (None, this\<lparr>Region := config_Region g\<rparr>)
                 else (None, this))
            | None \<Rightarrow> (None, this\<lparr>Region := os_Getenv w ''LANES_REGION''\<rparr>)))"

text \<open>
  \<^verbatim>\<open>LoadProfileBytes\<close> and \<^verbatim>\<open>LoadProfile\<close> return \<^verbatim>\<open>(prof, err)\<close>. \<^verbatim>\<open>yaml.Unmarshal\<close> is a
  parameter: it gives the profile as the library has filled it and the library's error.
  The package variable \<^verbatim>\<open>config\<close> (declared outside profile.go) is a parameter too.
\<close>

definition LoadProfileBytes ::
  "(string \<Rightarrow> Profile \<times> error option) \<Rightarrow> Config option \<Rightarrow> world \<Rightarrow> string
     \<Rightarrow> Profile option \<times> error option" where
  "LoadProfileBytes yaml_Unmarshal config w inp =
     (case yaml_Unmarshal inp of
        (prof, Some err) \<Rightarrow>
          (Some prof, Some (Errorf ''unable to parse lane profile: %s'' [Inr err]))
      | (prof, None) \<Rightarrow>
          (let prof = prof\<lparr>global := config\<rparr>
           in case Validate w prof of
                (Some err, prof) \<Rightarrow> (Some prof, Some (Errorf ''invalid profile: %s'' [Inr err]))
              | (None, prof) \<Rightarrow> (Some prof, None)))"

definition LoadProfile ::
  "(string \<Rightarrow> Profile \<times> error option) \<Rightarrow> Config option \<Rightarrow> string \<Rightarrow> world \<Rightarrow> string
     \<Rightarrow> (Profile option \<times> error option) outcome \<times> world" where
  "LoadProfile yaml_Unmarshal config CONFIG_DIR w name =
     (case GetProfilePath CONFIG_DIR w name True of
        (Exit code, w') \<Rightarrow> (Exit code, w')
      | (Return path, w') \<Rightarrow>
          (case ioutil_ReadFile w' path of
             Inl err \<Rightarrow>
               (Return (None, Some (Errorf ''unable to read profile: %s'' [Inr err])), w')
           | Inr inp \<Rightarrow> (Return (LoadProfileBytes yaml_Unmarshal config w' inp), w')))"

text \<open>
  The method \<^verbatim>\<open>Profile.FetchServersBy\<close>. What the package's function \<^verbatim>\<open>FetchServersBy\<close>
  (declared outside profile.go) returns for the given service and input is the parameter
  \<open>fetched\<close>. The loop assigns to every server the value of \<^verbatim>\<open>this.SSH.Mods[svr.Lane]\<close>,
  nil for a missing key, and prints a warning when the key is missing.
\<close>

fun tag_servers :: "Profile \<Rightarrow> world \<Rightarrow> Server list \<Rightarrow> Server list \<times> world" where
  "tag_servers this w [] = ([], w)"
| "tag_servers this w (svr # rest) =
     (let (p, exists) =
            (case Mods (SSH this) (Lane svr) of
               None \<Rightarrow> (None, False)
             | Some v \<Rightarrow> (v, True));
          svr = svr\<lparr>profile := p\<rparr>;
          w = (if \<not> exists then fmt_Printf w (NoProfileWarning svr (Lane svr)) else w);
          (rest, w) = tag_servers this w rest
      in (svr # rest, w))"

definition Profile_FetchServersBy ::
  "Server list \<times> error option \<Rightarrow> Profile \<Rightarrow> world
     \<Rightarrow> (Server list \<times> error option) \<times> world" where
  "Profile_FetchServersBy fetched this w =
     (case fetched of
        (servers, Some err) \<Rightarrow> ((servers, Some err), w)
      | (servers, None) \<Rightarrow>
          (let (servers, w) = tag_servers this w servers
           in ((servers, None), w)))"

text \<open>
  \<^verbatim>\<open>WriteBytes\<close>, \<^verbatim>\<open>WriteFile\<close> and \<^verbatim>\<open>Write\<close>. \<^verbatim>\<open>yaml.Marshal\<close> is a parameter.
\<close>

definition WriteBytes :: "(Profile \<Rightarrow> error + string) \<Rightarrow> Profile \<Rightarrow> error + string" where
  "WriteBytes yaml_Marshal this = yaml_Marshal this"

definition WriteFile ::
  "(Profile \<Rightarrow> error + string) \<Rightarrow> Profile \<Rightarrow> world \<Rightarrow> string \<Rightarrow> string
     \<Rightarrow> error option \<times> world" where
  "WriteFile yaml_Marshal this w name dest =
     (let err = (case os_Stat w dest of Inl e \<Rightarrow> Some e | Inr info \<Rightarrow> None)
      in if err = None \<and> \<not> overwrite this
      then (Some (Errorf ''profile %q already exists'' [Inl name]), w)
      else (case WriteBytes yaml_Marshal this of
              Inl err \<Rightarrow> (Some err, w)
            | Inr out \<Rightarrow>
                (case os_MkdirAll w (filepath_Dir dest) 0x1C0 of
                   Inl err \<Rightarrow> (Some err, w)
                 | Inr w1 \<Rightarrow>
                     (case ioutil_WriteFile w1 dest out 0x180 of
                        Inl err \<Rightarrow> (Some err, w1)
                      | Inr w2 \<Rightarrow> (None, fmt_Printf w2 (ProfileWritten name dest))))))"

definition Write ::
  "(Profile \<Rightarrow> error + string) \<Rightarrow> string \<Rightarrow> Profile \<Rightarrow> world \<Rightarrow> string
     \<Rightarrow> error option outcome \<times> world" where
  "Write yaml_Marshal CONFIG_DIR this w name =
     (case GetProfilePath CONFIG_DIR w name False of
        (Exit code, w') \<Rightarrow> (Exit code, w')
      | (Return path, w') \<Rightarrow>
          (case WriteFile yaml_Marshal this w' name path of
             (err, w'') \<Rightarrow> (Return err, w'')))"

section \<open>The words of the specification\<close>

text \<open>
  The owning user has read, write and execute permission: all three user bits of the
  mode are set.
\<close>

definition user_has_rwx :: "FileMode \<Rightarrow> bool" where
  "user_has_rwx m = (m AND 0x1C0 = 0x1C0)"

text \<open>
  The order of region resolution as the specification words it: the profile's region
  when it is not empty, otherwise the global configuration's region when that is set,
  otherwise the environment variable \<^verbatim>\<open>LANES_REGION\<close>.
\<close>

definition spec_region :: "world \<Rightarrow> Profile \<Rightarrow> string" where
  "spec_region w p =
     (if Region p \<noteq> [] then Region p
      else (case global p of
              Some g \<Rightarrow>
                (if config_Region g \<noteq> [] then config_Region g
                 else os_Getenv w ''LANES_REGION'')
            | None \<Rightarrow> os_Getenv w ''LANES_REGION''))"

text \<open>
  What the lane map of a profile holds for the lane of a server (nil when the lane has
  no entry), and whether the lane has an entry.
\<close>

definition lane_profile :: "Profile \<Rightarrow> Server \<Rightarrow> ssh_Profile option" where
  "lane_profile this svr = (case Mods (SSH this) (Lane svr) of None \<Rightarrow> None | Some v \<Rightarrow> v)"

definition lane_matched :: "Profile \<Rightarrow> Server \<Rightarrow> bool" where
  "lane_matched this svr = (Mods (SSH this) (Lane svr) \<noteq> None)"

text \<open>
  Between two states, nothing but directories with the permission bits \<open>perm\<close> has been
  added, each at a path where nothing was before.
\<close>

definition dirs_added :: "FileMode \<Rightarrow> world \<Rightarrow> world \<Rightarrow> bool" where
  "dirs_added perm w w' =
     (environ w' = environ w \<and> stdout w' = stdout w \<and>
      (\<forall>q. files w' q = files w q \<or>
           (files w q = Inl ENOENT \<and>
            files w' q = Inr \<lparr>Mode = ModeDir OR Perm perm, Data = []\<rparr>)))"

section \<open>Example states\<close>

text \<open>A state whose files are the listed paths with the listed modes, all of them empty.\<close>

definition world_of :: "(string \<times> FileMode) list \<Rightarrow> world" where
  "world_of ps =
     \<lparr>files = (\<lambda>p. case map_of ps p of
                      None \<Rightarrow> Inl ENOENT
                    | Some m \<Rightarrow> Inr \<lparr>Mode = m, Data = []\<rparr>),
      environ = Map.empty,
      stdout = []\<rparr>"

text \<open>
  A profile directory with mode \<^verbatim>\<open>0755\<close> that holds a profile file with mode \<^verbatim>\<open>0644\<close>.
\<close>

definition loose_world :: world where
  "loose_world = world_of [(''/c'', 0x800001ED), (''/c/dev.yml'', 0x1A4)]"

text \<open>A state without files in which \<^verbatim>\<open>LANES_REGION\<close> is set to the given region.\<close>

definition example_env :: "string \<Rightarrow> world" where
  "example_env region =
     \<lparr>files = (\<lambda>p. Inl ENOENT), environ = [''LANES_REGION'' \<mapsto> region], stdout = []\<rparr>"

text \<open>A profile without lanes, from its credentials, region and global configuration.\<close>

definition example_profile ::
  "string \<Rightarrow> string \<Rightarrow> string \<Rightarrow> Config option \<Rightarrow> Profile" where
  "example_profile key secret region g =
     \<lparr>AWSAccessKeyId = key, AWSSecretAccessKey = secret, Region = region,
      SSH = \<lparr>Mods = Map.empty\<rparr>, global = g, overwrite = False\<rparr>"


text \<open>A YAML encoder that gives the same text for every profile, and a decoder that fails.\<close>

definition yaml_const :: "string \<Rightarrow> Profile \<Rightarrow> error + string" where
  "yaml_const out p = Inr out"

definition yaml_none :: "string \<Rightarrow> Profile \<times> error option" where
  "yaml_none inp = (example_profile [] [] [] None, Some (YamlError ''empty''))"

section \<open>Facts about the mode tests\<close>

lemma user_test_read_bit:
  "(drop_bit 6 (m AND 0x1C0) \<le> (3 :: 32 word)) \<longleftrightarrow> \<not> bit m 8" for m :: "32 word"
proof -
  have user_bits: "drop_bit 6 (m AND 0x1C0) = take_bit 3 (drop_bit 6 m)"
    by (simp add: take_bit_eq_mask mask_eq_exp_minus_1)
  have nat3: "(k mod 8 \<le> 3) \<longleftrightarrow> even (k div 4)" for k :: nat
    by presburger
  have "(take_bit 3 (drop_bit 6 m) \<le> (3 :: 32 word))
      \<longleftrightarrow> unat (take_bit 3 (drop_bit 6 m)) \<le> 3"
    by (simp add: word_le_nat_alt)
  also have "\<dots> \<longleftrightarrow> take_bit 3 (unat (drop_bit 6 m)) \<le> 3"
    by (simp only: unsigned_take_bit_eq)
  also have "\<dots> \<longleftrightarrow> unat (drop_bit 6 m) mod 8 \<le> 3"
    by (simp add: take_bit_eq_mod)
  also have "\<dots> \<longleftrightarrow> even (unat (drop_bit 6 m) div 4)"
    by (rule nat3)
  also have "\<dots> \<longleftrightarrow> \<not> bit (unat (drop_bit 6 m)) 2"
    by (simp add: bit_iff_odd)
  also have "\<dots> \<longleftrightarrow> \<not> bit (drop_bit 6 m) 2"
    by (simp add: bit_unsigned_iff)
  also have "\<dots> \<longleftrightarrow> \<not> bit m 8"
    by (simp add: bit_simps)
  finally show ?thesis
    by (simp only: user_bits)
qed

lemma read_bit_mask: "m AND 0x100 = 0 \<longleftrightarrow> \<not> bit m 8" for m :: "32 word"
proof -
  have p: "(0x100 :: 32 word) = 2 ^ 8"
    by simp
  show ?thesis
    by (subst p) (rule and_exp_eq_0_iff_not_bit)
qed

lemma group_test_mask:
  "(drop_bit 3 (m AND 0x38) \<noteq> 0) \<longleftrightarrow> (m AND 0x38 \<noteq> 0)" for m :: "32 word"
proof -
  have c56: "(0x38 :: 32 word) = push_bit 3 (mask 3)"
    by (simp add: mask_eq_exp_minus_1)
  have e: "m AND 0x38 = push_bit 3 (drop_bit 3 (m AND 0x38))"
    unfolding c56 by (rule bit_eqI) (auto simp: bit_simps)
  have "m AND 0x38 = 0" if z: "drop_bit 3 (m AND 0x38) = 0"
  proof -
    have "m AND 0x38 = push_bit 3 (drop_bit 3 (m AND 0x38))"
      by (rule e)
    also have "\<dots> = 0"
      by (simp only: z push_bit_of_0)
    finally show ?thesis .
  qed
  moreover have "drop_bit 3 (m AND 0x38) = 0" if "m AND 0x38 = 0"
    using that by (simp only: drop_bit_of_0)
  ultimately show ?thesis
    by blast
qed

lemma user_has_rwx_test:
  "user_has_rwx m \<Longrightarrow> \<not> drop_bit 6 (m AND 0x1C0) \<le> (3 :: 32 word)"
  by (simp add: user_has_rwx_def)

section \<open>CheckPermissions\<close>

lemma CheckPermissions_stat_ok:
  "files w path = Inr n \<Longrightarrow>
   CheckPermissions w path =
     (drop_bit 6 (Mode n AND 0x1C0) \<le> 3,
      let r1 = (if drop_bit 6 (Mode n AND 0x1C0) \<le> 3
                then Some (MultiError [Errorf ''%s is not user-accessible'' [Inl path]])
                else None);
          r2 = (if drop_bit 3 (Mode n AND 0x38) \<noteq> 0
                then Some (multierror_Append r1 [Errorf ''%s is group-accessible'' [Inl path]])
                else r1)
      in (if Mode n AND 0x7 \<noteq> 0
          then Some (multierror_Append r2 [Errorf ''%s is world-accessible'' [Inl path]])
          else r2))"
  by (simp add: CheckPermissions_def os_Stat_def multierror_Append_def Let_def)

lemma CheckPermissions_stat_fails:
  "files w path = Inl e \<Longrightarrow>
   CheckPermissions w path = (True, Some (MultiError [PathError ''stat'' path e]))"
  by (simp add: CheckPermissions_def os_Stat_def multierror_Append_def)

text \<open>
  Claim C3, as stated: for every existing path, \<^verbatim>\<open>CheckPermissions\<close> is fatal exactly when
  the owning user lacks read/write/execute permission. A file of mode \<^verbatim>\<open>0600\<close> is not
  fatal although its owner lacks execute permission; and, should the claim mean a user
  without any of the three permissions, a file of mode \<^verbatim>\<open>0300\<close> is fatal although its
  owner has write and execute permission.
\<close>

theorem CheckPermissions_fatal_not_rwx_counterexample:
  "\<not> user_has_rwx 0x180 \<and>
   \<not> fst (CheckPermissions (world_of [(''/c/dev.yml'', 0x180)]) ''/c/dev.yml'') \<and>
   (0xC0 :: FileMode) AND 0x1C0 \<noteq> 0 \<and>
   fst (CheckPermissions (world_of [(''/c/dev.yml'', 0xC0)]) ''/c/dev.yml'')"
  by (simp add: user_has_rwx_def CheckPermissions_stat_ok world_of_def)

text \<open>
  Claim C3, amended: for every existing path, \<^verbatim>\<open>CheckPermissions\<close> is fatal exactly when
  the owning user's read bit (\<^verbatim>\<open>0400\<close>) is not set in the path's mode; the user's write
  and execute bits play no part.
\<close>

theorem CheckPermissions_fatal_iff_user_read_unset:
  "files w path = Inr n \<Longrightarrow> fst (CheckPermissions w path) = (Mode n AND 0x100 = 0)"
  by (simp only: CheckPermissions_stat_ok fst_conv user_test_read_bit read_bit_mask)

text \<open>The amended claim at a file of mode \<^verbatim>\<open>0300\<close>: the check is fatal.\<close>

theorem CheckPermissions_fatal_iff_user_read_unset_witness:
  "files (world_of [(''/c/dev.yml'', 0xC0)]) ''/c/dev.yml'' = Inr \<lparr>Mode = 0xC0, Data = []\<rparr> \<and>
   fst (CheckPermissions (world_of [(''/c/dev.yml'', 0xC0)]) ''/c/dev.yml'')
     = (Mode \<lparr>Mode = 0xC0, Data = []\<rparr> AND 0x100 = 0)"
  using CheckPermissions_fatal_iff_user_read_unset
    [of "world_of [(''/c/dev.yml'', 0xC0)]" "''/c/dev.yml''" "\<lparr>Mode = 0xC0, Data = []\<rparr>"]
  by (simp add: world_of_def)

text \<open>
  Claim C4: for every existing path whose owning user has full access,
  \<^verbatim>\<open>CheckPermissions\<close> is not fatal, and it reports an error exactly when the group
  permission bits or the world permission bits of the mode are not zero.
\<close>

theorem CheckPermissions_warning_iff_group_or_world:
  assumes "files w path = Inr n" and "user_has_rwx (Mode n)"
  shows "\<not> fst (CheckPermissions w path) \<and>
         (snd (CheckPermissions w path) \<noteq> None) =
           (Mode n AND 0x38 \<noteq> 0 \<or> Mode n AND 0x7 \<noteq> 0)"
proof -
  have u: "\<not> drop_bit 6 (Mode n AND 0x1C0) \<le> 3"
    using assms(2) by (rule user_has_rwx_test)
  have g: "(drop_bit 3 (Mode n AND 0x38) \<noteq> 0) = (Mode n AND 0x38 \<noteq> 0)"
    by (rule group_test_mask)
  show ?thesis
    unfolding CheckPermissions_stat_ok [OF assms(1)] using u g
    by (simp add: Let_def)
qed

text \<open>Claim C4 at a file of mode \<^verbatim>\<open>0750\<close>: not fatal, and an error is reported.\<close>

theorem CheckPermissions_warning_iff_group_or_world_witness:
  "files (world_of [(''/c/dev.yml'', 0x1E8)]) ''/c/dev.yml'' = Inr \<lparr>Mode = 0x1E8, Data = []\<rparr> \<and>
   user_has_rwx (Mode \<lparr>Mode = 0x1E8, Data = []\<rparr>) \<and>
   \<not> fst (CheckPermissions (world_of [(''/c/dev.yml'', 0x1E8)]) ''/c/dev.yml'') \<and>
   snd (CheckPermissions (world_of [(''/c/dev.yml'', 0x1E8)]) ''/c/dev.yml'') \<noteq> None"
  using CheckPermissions_warning_iff_group_or_world
    [of "world_of [(''/c/dev.yml'', 0x1E8)]" "''/c/dev.yml''" "\<lparr>Mode = 0x1E8, Data = []\<rparr>"]
  by (simp add: world_of_def user_has_rwx_def)

section \<open>CheckProfilePermissions\<close>

text \<open>
  Claim C2 says that the errors of the directory check and of the file check are all in
  the one message printed. With a directory of mode \<^verbatim>\<open>0755\<close> and a profile file of mode
  \<^verbatim>\<open>0644\<close> both checks report two errors, neither check is fatal, the call returns, and
  the one message printed holds the two errors of the file only.
\<close>

theorem CheckProfilePermissions_prints_file_errors_only:
  "snd (CheckPermissions loose_world (filepath_Dir ''/c/dev.yml'')) =
     Some (MultiError [Errorf ''%s is group-accessible'' [Inl ''/c''],
                       Errorf ''%s is world-accessible'' [Inl ''/c'']]) \<and>
   snd (CheckPermissions loose_world ''/c/dev.yml'') =
     Some (MultiError [Errorf ''%s is group-accessible'' [Inl ''/c/dev.yml''],
                       Errorf ''%s is world-accessible'' [Inl ''/c/dev.yml'']]) \<and>
   fst (CheckProfilePermissions loose_world ''/c/dev.yml'') = Return () \<and>
   stdout (snd (CheckProfilePermissions loose_world ''/c/dev.yml'')) =
     [PermissionReport ''WARNING''
        (MultiError [Errorf ''%s is group-accessible'' [Inl ''/c/dev.yml''],
                     Errorf ''%s is world-accessible'' [Inl ''/c/dev.yml'']])]"
  by code_simp

section \<open>Validate\<close>

text \<open>
  Claim C6: \<^verbatim>\<open>Validate\<close> returns an error exactly when a credential field is empty:
  \<^verbatim>\<open>ErrMissingAccessKey\<close> when \<^verbatim>\<open>AWSAccessKeyId\<close> is empty, \<^verbatim>\<open>ErrMissingSecretKey\<close> when
  \<^verbatim>\<open>AWSAccessKeyId\<close> is not empty and \<^verbatim>\<open>AWSSecretAccessKey\<close> is, and nil when neither is
  empty.
\<close>

theorem Validate_error_iff_credential_empty:
  "(fst (Validate w p) \<noteq> None) = (AWSAccessKeyId p = [] \<or> AWSSecretAccessKey p = []) \<and>
   (fst (Validate w p) = Some ErrMissingAccessKey) = (AWSAccessKeyId p = []) \<and>
   (fst (Validate w p) = Some ErrMissingSecretKey)
      = (AWSAccessKeyId p \<noteq> [] \<and> AWSSecretAccessKey p = []) \<and>
   (fst (Validate w p) = None) = (AWSAccessKeyId p \<noteq> [] \<and> AWSSecretAccessKey p \<noteq> [])"
  by (simp add: Validate_def split: option.split)

text \<open>
  Claim C10: \<^verbatim>\<open>Validate\<close> changes no field but \<^verbatim>\<open>Region\<close>: the two credential fields and
  the SSH lane map (and the unexported fields) are as before, and when \<^verbatim>\<open>Validate\<close>
  returns an error the whole profile, \<^verbatim>\<open>Region\<close> included, is as before.
\<close>

theorem Validate_changes_Region_only:
  "AWSAccessKeyId (snd (Validate w p)) = AWSAccessKeyId p \<and>
   AWSSecretAccessKey (snd (Validate w p)) = AWSSecretAccessKey p \<and>
   SSH (snd (Validate w p)) = SSH p \<and>
   global (snd (Validate w p)) = global p \<and>
   overwrite (snd (Validate w p)) = overwrite p \<and>
   (fst (Validate w p) \<noteq> None \<longrightarrow> snd (Validate w p) = p)"
  by (simp add: Validate_def split: option.split)

text \<open>Claim C10 at a profile without access key: an error, and the profile as before.\<close>

theorem Validate_changes_Region_only_witness:
  "fst (Validate (example_env ''eu-west-1'')
          (example_profile [] ''secret'' ''us-east-1'' None)) \<noteq> None \<and>
   snd (Validate (example_env ''eu-west-1'')
          (example_profile [] ''secret'' ''us-east-1'' None))
     = example_profile [] ''secret'' ''us-east-1'' None"
  using Validate_changes_Region_only
    [of "example_env ''eu-west-1''" "example_profile [] ''secret'' ''us-east-1'' None"]
  by (simp add: Validate_def example_profile_def)

text \<open>
  Claim C1, as stated: for every profile \<^verbatim>\<open>Validate\<close> resolves the region in the order
  profile, global configuration, environment variable. With \<^verbatim>\<open>LANES_REGION\<close> set, this
  fails for three profiles:
  \<^item> credentials, no region, a global configuration without region: the region stays
    empty, the environment variable is not read;
  \<^item> credentials, a region, no global configuration: the region is replaced by the
    environment variable;
  \<^item> no access key, no region, a global configuration with a region: \<^verbatim>\<open>Validate\<close> returns
    its error before it resolves anything.
\<close>

theorem Validate_region_order_counterexample:
  "Region (snd (Validate (example_env ''eu-west-1'')
      (example_profile ''AKIA'' ''secret'' [] (Some \<lparr>config_Region = []\<rparr>))))
   \<noteq> spec_region (example_env ''eu-west-1'')
      (example_profile ''AKIA'' ''secret'' [] (Some \<lparr>config_Region = []\<rparr>)) \<and>
   Region (snd (Validate (example_env ''eu-west-1'')
      (example_profile ''AKIA'' ''secret'' ''us-east-1'' None)))
   \<noteq> spec_region (example_env ''eu-west-1'')
      (example_profile ''AKIA'' ''secret'' ''us-east-1'' None) \<and>
   Region (snd (Validate (example_env ''eu-west-1'')
      (example_profile [] ''secret'' [] (Some \<lparr>config_Region = ''ap-south-1''\<rparr>))))
   \<noteq> spec_region (example_env ''eu-west-1'')
      (example_profile [] ''secret'' [] (Some \<lparr>config_Region = ''ap-south-1''\<rparr>))"
  by (simp add: Validate_def spec_region_def example_profile_def example_env_def os_Getenv_def)

text \<open>
  Claim C1, amended: for every profile with both credential fields not empty, when the
  profile has a global configuration \<^verbatim>\<open>Validate\<close> keeps a region that is not empty and
  replaces an empty one by the global configuration's region, whether that is set or
  not; when the profile has no global configuration and its region is empty,
  \<^verbatim>\<open>Validate\<close> sets the region to the environment variable \<^verbatim>\<open>LANES_REGION\<close>.
\<close>

theorem Validate_region_resolution:
  assumes "AWSAccessKeyId p \<noteq> []" and "AWSSecretAccessKey p \<noteq> []"
  shows "(\<forall>g. global p = Some g \<and> Region p \<noteq> [] \<longrightarrow>
              Region (snd (Validate w p)) = Region p) \<and>
         (\<forall>g. global p = Some g \<and> Region p = [] \<longrightarrow>
              Region (snd (Validate w p)) = config_Region g) \<and>
         (global p = None \<and> Region p = [] \<longrightarrow>
              Region (snd (Validate w p)) = os_Getenv w ''LANES_REGION'')"
  using assms by (simp add: Validate_def)

text \<open>The amended claim C1 at one profile for each of its three cases.\<close>

theorem Validate_region_resolution_witness:
  "Region (snd (Validate (example_env ''eu-west-1'')
      (example_profile ''AKIA'' ''secret'' ''us-east-1''
         (Some \<lparr>config_Region = ''ap-south-1''\<rparr>))))
     = ''us-east-1'' \<and>
   Region (snd (Validate (example_env ''eu-west-1'')
      (example_profile ''AKIA'' ''secret'' [] (Some \<lparr>config_Region = ''ap-south-1''\<rparr>))))
     = ''ap-south-1'' \<and>
   Region (snd (Validate (example_env ''eu-west-1'')
      (example_profile ''AKIA'' ''secret'' [] None)))
     = ''eu-west-1''"
  using
    Validate_region_resolution
      [of "example_profile ''AKIA'' ''secret'' ''us-east-1''
             (Some \<lparr>config_Region = ''ap-south-1''\<rparr>)"
          "example_env ''eu-west-1''"]
    Validate_region_resolution
      [of "example_profile ''AKIA'' ''secret'' [] (Some \<lparr>config_Region = ''ap-south-1''\<rparr>)"
          "example_env ''eu-west-1''"]
    Validate_region_resolution
      [of "example_profile ''AKIA'' ''secret'' [] None" "example_env ''eu-west-1''"]
  by (simp add: example_profile_def example_env_def os_Getenv_def)

section \<open>FetchServersBy\<close>

lemma tag_servers_map_filter:
  "tag_servers this w servers =
     (map (\<lambda>svr. svr\<lparr>profile := lane_profile this svr\<rparr>) servers,
      w\<lparr>stdout := stdout w @
           map (\<lambda>svr. NoProfileWarning (svr\<lparr>profile := None\<rparr>) (Lane svr))
             (filter (\<lambda>svr. \<not> lane_matched this svr) servers)\<rparr>)"
proof (induction servers arbitrary: w)
  case Nil
  show ?case by simp
next
  case (Cons svr rest)
  show ?case
    by (cases "Mods (SSH this) (Lane svr)")
       (simp_all add: Cons.IH lane_profile_def lane_matched_def fmt_Printf_def Let_def)
qed

text \<open>
  Claim C5: for every profile and every server list fetched without error, the method
  \<^verbatim>\<open>FetchServersBy\<close> returns a nil error and the whole list, in order, every server with
  the SSH profile that the lane map holds for its lane (nil when the lane has no entry);
  for every server whose lane has no entry it prints one warning, and it does nothing
  else.
\<close>

theorem FetchServersBy_tags_and_warns:
  "Profile_FetchServersBy (servers, None) this w =
     ((map (\<lambda>svr. svr\<lparr>profile := lane_profile this svr\<rparr>) servers, None),
      w\<lparr>stdout := stdout w @
           map (\<lambda>svr. NoProfileWarning (svr\<lparr>profile := None\<rparr>) (Lane svr))
             (filter (\<lambda>svr. \<not> lane_matched this svr) servers)\<rparr>)"
  by (simp add: Profile_FetchServersBy_def tag_servers_map_filter)

section \<open>LoadProfile\<close>

text \<open>
  Claim C9: for every path on which \<^verbatim>\<open>os.Stat\<close> fails, \<^verbatim>\<open>CheckPermissions\<close> is fatal; so
  when \<^verbatim>\<open>os.Stat\<close> fails on the file of a profile, \<^verbatim>\<open>LoadProfile\<close> prints the error with
  the prefix \<^verbatim>\<open>ERROR\<close> and ends the process with \<^verbatim>\<open>os.Exit(1)\<close>; it returns nothing to
  its caller.
\<close>

theorem LoadProfile_exits_when_stat_fails:
  assumes "files w path = Inl e"
  shows "fst (CheckPermissions w path) \<and>
         (path = filepath_Join [CONFIG_DIR, name @ ''.yml''] \<longrightarrow>
            LoadProfile yaml_Unmarshal config CONFIG_DIR w name =
              (Exit 1,
               fmt_Printf w (PermissionReport ''ERROR''
                               (MultiError [PathError ''stat'' path e]))))"
proof -
  have p: "CheckPermissions w path = (True, Some (MultiError [PathError ''stat'' path e]))"
    using assms by (rule CheckPermissions_stat_fails)
  have c: "CheckProfilePermissions w path =
             (Exit 1, fmt_Printf w (PermissionReport ''ERROR''
                                      (MultiError [PathError ''stat'' path e])))"
    by (cases "CheckPermissions w (filepath_Dir path)")
       (simp add: CheckProfilePermissions_def p multierror_Append_def)
  have "LoadProfile yaml_Unmarshal config CONFIG_DIR w name =
          (Exit 1, fmt_Printf w (PermissionReport ''ERROR''
                                   (MultiError [PathError ''stat'' path e])))"
    if eq: "path = filepath_Join [CONFIG_DIR, name @ ''.yml'']"
    using c unfolding eq by (simp add: LoadProfile_def GetProfilePath_def Let_def)
  then show ?thesis
    by (simp add: p)
qed

text \<open>Claim C9 at a profile directory that does not hold the profile's file.\<close>

theorem LoadProfile_exits_when_stat_fails_witness:
  "files (world_of [(''/c'', 0x800001C0)]) ''/c/dev.yml'' = Inl ENOENT \<and>
   ''/c/dev.yml'' = filepath_Join [''/c'', ''dev'' @ ''.yml''] \<and>
   fst (CheckPermissions (world_of [(''/c'', 0x800001C0)]) ''/c/dev.yml'') \<and>
   LoadProfile yaml_none None ''/c'' (world_of [(''/c'', 0x800001C0)]) ''dev'' =
     (Exit 1,
      fmt_Printf (world_of [(''/c'', 0x800001C0)])
        (PermissionReport ''ERROR'' (MultiError [PathError ''stat'' ''/c/dev.yml'' ENOENT])))"
proof -
  have h: "files (world_of [(''/c'', 0x800001C0)]) ''/c/dev.yml'' = Inl ENOENT"
    by (simp add: world_of_def)
  have j: "''/c/dev.yml'' = filepath_Join [''/c'', ''dev'' @ ''.yml'']"
    by code_simp
  from LoadProfile_exits_when_stat_fails [OF h, of "''/c''" "''dev''" yaml_none None] h j show ?thesis
    by simp
qed

section \<open>MkdirAll and WriteFile of the standard library\<close>

lemma dirs_added_refl: "dirs_added perm w w"
  by (simp add: dirs_added_def)

lemma dirs_added_trans:
  assumes "dirs_added perm w w1" and "dirs_added perm w1 w2"
  shows "dirs_added perm w w2"
  unfolding dirs_added_def
proof (intro conjI allI)
  show "environ w2 = environ w" using assms by (simp add: dirs_added_def)
  show "stdout w2 = stdout w" using assms by (simp add: dirs_added_def)
  fix q
  from assms(1) have a: "files w1 q = files w q \<or>
      (files w q = Inl ENOENT \<and> files w1 q = Inr \<lparr>Mode = ModeDir OR Perm perm, Data = []\<rparr>)"
    by (simp add: dirs_added_def)
  from assms(2) have b: "files w2 q = files w1 q \<or>
      (files w1 q = Inl ENOENT \<and> files w2 q = Inr \<lparr>Mode = ModeDir OR Perm perm, Data = []\<rparr>)"
    by (simp add: dirs_added_def)
  from a b show "files w2 q = files w q \<or>
      (files w q = Inl ENOENT \<and> files w2 q = Inr \<lparr>Mode = ModeDir OR Perm perm, Data = []\<rparr>)"
    by auto
qed

lemma os_Mkdir_dirs_added:
  "os_Mkdir w path perm = Inr w' \<Longrightarrow> dirs_added perm w w'"
  by (auto simp: os_Mkdir_def dirs_added_def split: sum.splits errno.splits if_splits)

lemma mkdir_checked_dirs_added:
  assumes "mkdir_checked w path perm = Inr w'"
  shows "dirs_added perm w w'"
proof (cases "os_Mkdir w path perm")
  case (Inr w1)
  with assms have "w' = w1"
    by (simp add: mkdir_checked_def)
  with Inr show ?thesis
    by (simp add: os_Mkdir_dirs_added)
next
  case (Inl err)
  with assms have "w' = w"
    by (simp add: mkdir_checked_def split: sum.splits if_splits)
  then show ?thesis
    by (simp add: dirs_added_refl)
qed

lemma os_MkdirAll_dirs_added:
  "os_MkdirAll w path perm = Inr w' \<Longrightarrow> dirs_added perm w w'"
proof (induction w path perm arbitrary: w' rule: os_MkdirAll.induct)
  case (1 w path perm)
  show ?case
  proof (cases "os_Stat w path")
    case (Inr dir)
    with "1.prems" show ?thesis
      by (subst (asm) os_MkdirAll.simps) (auto simp: dirs_added_refl split: if_splits)
  next
    case (Inl err0)
    show ?thesis
    proof (cases "1 < length (parent_prefix path)")
      case True
      with Inl "1.prems" obtain w1 where
        r: "os_MkdirAll w (butlast (parent_prefix path)) perm = Inr w1" and
        m: "mkdir_checked w1 path perm = Inr w'"
        by (subst (asm) os_MkdirAll.simps) (auto split: sum.splits)
      from "1.IH" [OF Inl True r] have "dirs_added perm w w1" .
      moreover from m have "dirs_added perm w1 w'"
        by (rule mkdir_checked_dirs_added)
      ultimately show ?thesis
        by (rule dirs_added_trans)
    next
      case False
      with Inl "1.prems" have "mkdir_checked w path perm = Inr w'"
        by (subst (asm) os_MkdirAll.simps) simp
      then show ?thesis
        by (rule mkdir_checked_dirs_added)
    qed
  qed
qed

lemma mode_facts:
  "Perm 0x180 = 0x180"
  "\<not> IsDir (Perm 0x180)"
  "IsDir (ModeDir OR Perm 0x1C0)"
  "Perm (ModeDir OR Perm 0x1C0) = 0x1C0"
  by (simp_all add: Perm_def IsDir_def ModeDir_def)

lemma WriteFile_success:
  assumes "WriteFile yaml_Marshal this w name dest = (None, w')"
  shows "\<exists>out w1 w2.
           yaml_Marshal this = Inr out \<and>
           os_MkdirAll w (filepath_Dir dest) 0x1C0 = Inr w1 \<and>
           ioutil_WriteFile w1 dest out 0x180 = Inr w2 \<and>
           w' = fmt_Printf w2 (ProfileWritten name dest)"
  using assms
  by (auto simp: WriteFile_def WriteBytes_def Let_def split: if_splits sum.splits)

lemma ioutil_WriteFile_success:
  assumes "ioutil_WriteFile w name data perm = Inr w'"
  shows "\<exists>n. w' = w\<lparr>files := (files w)(name := Inr n)\<rparr> \<and> Data n = data \<and>
             ((\<exists>n0. files w name = Inr n0 \<and> \<not> IsDir (Mode n0) \<and> Mode n = Mode n0) \<or>
              (files w name = Inl ENOENT \<and> Mode n = Perm perm))"
  using assms
  by (auto simp: ioutil_WriteFile_def split: sum.splits errno.splits if_splits)


lemma WriteFile_success_effect:
  assumes ok: "WriteFile yaml_Marshal this w name dest = (None, w')"
  shows "\<exists>out n. yaml_Marshal this = Inr out \<and>
           files w' dest = Inr n \<and> Data n = out \<and> \<not> IsDir (Mode n) \<and>
           (isl (files w dest) \<longrightarrow> Mode n = 0x180) \<and>
           (\<forall>n0. files w dest = Inr n0 \<longrightarrow> Mode n = Mode n0) \<and>
           (\<forall>d nd. d \<noteq> dest \<and> isl (files w d) \<and> files w' d = Inr nd \<longrightarrow>
                IsDir (Mode nd) \<and> Perm (Mode nd) = 0x1C0) \<and>
           (\<forall>d nd. d \<noteq> dest \<and> files w d = Inr nd \<longrightarrow> files w' d = Inr nd)"
proof -
  from WriteFile_success [OF ok] obtain out w1 w2 where
    m: "yaml_Marshal this = Inr out" and
    d: "os_MkdirAll w (filepath_Dir dest) 0x1C0 = Inr w1" and
    f: "ioutil_WriteFile w1 dest out 0x180 = Inr w2" and
    w': "w' = fmt_Printf w2 (ProfileWritten name dest)"
    by blast
  from d have da: "dirs_added 0x1C0 w w1"
    by (rule os_MkdirAll_dirs_added)
  have q: "files w1 q = files w q \<or>
           (files w q = Inl ENOENT \<and> files w1 q = Inr \<lparr>Mode = ModeDir OR Perm 0x1C0, Data = []\<rparr>)"
    for q
    using da by (simp add: dirs_added_def)
  from ioutil_WriteFile_success [OF f] obtain n where
    w2: "w2 = w1\<lparr>files := (files w1)(dest := Inr n)\<rparr>" and
    dn: "Data n = out" and
    c: "(\<exists>n0. files w1 dest = Inr n0 \<and> \<not> IsDir (Mode n0) \<and> Mode n = Mode n0) \<or>
        (files w1 dest = Inl ENOENT \<and> Mode n = Perm 0x180)"
    by blast
  have fw': "files w' = (files w1)(dest := Inr n)"
    by (simp add: w' w2 fmt_Printf_def)
  have nd: "\<not> IsDir (Mode n)"
    using c mode_facts(2) by auto
  have created: "Mode n = 0x180" if "isl (files w dest)"
  proof -
    from that obtain e where e: "files w dest = Inl e"
      by (cases "files w dest") simp_all
    from q [of dest] c e mode_facts(3) have "files w1 dest = Inl ENOENT \<and> Mode n = Perm 0x180"
      by auto
    then show ?thesis
      by (simp add: mode_facts(1))
  qed
  have kept: "Mode n = Mode n0" if "files w dest = Inr n0" for n0
    using q [of dest] c that by auto
  have dirs: "IsDir (Mode nd) \<and> Perm (Mode nd) = 0x1C0"
    if "d \<noteq> dest" and "isl (files w d)" and "files w' d = Inr nd" for d nd
  proof -
    from that(1,3) have "files w1 d = Inr nd"
      by (simp add: fw')
    moreover from that(2) obtain e where "files w d = Inl e"
      by (cases "files w d") simp_all
    ultimately have "nd = \<lparr>Mode = ModeDir OR Perm 0x1C0, Data = []\<rparr>"
      using q [of d] by auto
    then show ?thesis
      by (simp add: mode_facts(3,4))
  qed
  have others: "files w' d = Inr nd" if "d \<noteq> dest" and "files w d = Inr nd" for d nd
    using q [of d] that by (auto simp: fw')
  from m dn nd created kept dirs others show ?thesis
    by (intro exI [of _ out] exI [of _ n]) (simp add: fw')
qed

section \<open>Write and WriteFile\<close>

text \<open>
  Claim C7: for every profile name, when \<^verbatim>\<open>Write\<close> returns a nil error the file at
  \<^verbatim>\<open>filepath.Join(CONFIG_DIR, name+".yml")\<close> is a regular file that holds the profile's
  YAML; when nothing was at that path before, the file has mode \<^verbatim>\<open>0600\<close>; and whatever
  else has appeared where nothing was before is a directory with the permission bits
  \<^verbatim>\<open>0700\<close>.
\<close>

theorem Write_persists_profile:
  assumes "Write yaml_Marshal CONFIG_DIR this w name = (Return None, w')"
  shows "\<exists>out n. yaml_Marshal this = Inr out \<and>
           files w' (filepath_Join [CONFIG_DIR, name @ ''.yml'']) = Inr n \<and>
           Data n = out \<and> \<not> IsDir (Mode n) \<and>
           (isl (files w (filepath_Join [CONFIG_DIR, name @ ''.yml''])) \<longrightarrow> Mode n = 0x180) \<and>
           (\<forall>d nd. d \<noteq> filepath_Join [CONFIG_DIR, name @ ''.yml''] \<and>
                   isl (files w d) \<and> files w' d = Inr nd \<longrightarrow>
                IsDir (Mode nd) \<and> Perm (Mode nd) = 0x1C0)"
proof -
  from assms have
    "WriteFile yaml_Marshal this w name (filepath_Join [CONFIG_DIR, name @ ''.yml'']) = (None, w')"
    by (simp add: Write_def GetProfilePath_def Let_def split: prod.splits)
  from WriteFile_success_effect [OF this] show ?thesis
    by blast
qed

text \<open>Claim C7 in a state without files: the directory and the file are created.\<close>

theorem Write_persists_profile_witness:
  "fst (Write (yaml_const ''yaml'') ''/c'' (example_profile ''AKIA'' ''secret'' [] None)
          (world_of []) ''dev'') = Return None \<and>
   filepath_Join [''/c'', ''dev'' @ ''.yml''] = ''/c/dev.yml'' \<and>
   files (snd (Write (yaml_const ''yaml'') ''/c'' (example_profile ''AKIA'' ''secret'' [] None)
                 (world_of []) ''dev'')) ''/c/dev.yml''
     = Inr \<lparr>Mode = 0x180, Data = ''yaml''\<rparr> \<and>
   files (snd (Write (yaml_const ''yaml'') ''/c'' (example_profile ''AKIA'' ''secret'' [] None)
                 (world_of []) ''dev'')) ''/c''
     = Inr \<lparr>Mode = 0x800001C0, Data = []\<rparr>"
proof -
  let ?W = "Write (yaml_const ''yaml'') ''/c'' (example_profile ''AKIA'' ''secret'' [] None)
              (world_of []) ''dev''"
  have f: "fst ?W = Return None"
    by code_simp
  have j: "filepath_Join [''/c'', ''dev'' @ ''.yml''] = ''/c/dev.yml''"
    by code_simp
  have e: "?W = (Return None, snd ?W)"
    using f by (simp add: prod_eq_iff)
  have i: "isl (files (world_of []) ''/c/dev.yml'')" and i2: "isl (files (world_of []) ''/c'')"
    by (simp_all add: world_of_def)
  have y: "yaml_const ''yaml'' (example_profile ''AKIA'' ''secret'' [] None) = Inr ''yaml''"
    by (simp add: yaml_const_def)
  from Write_persists_profile [OF e] obtain out n where
    m: "yaml_const ''yaml'' (example_profile ''AKIA'' ''secret'' [] None) = Inr out" and
    n: "files (snd ?W) (filepath_Join [''/c'', ''dev'' @ ''.yml'']) = Inr n" and
    dn: "Data n = out" and
    mo: "isl (files (world_of []) (filepath_Join [''/c'', ''dev'' @ ''.yml''])) \<longrightarrow> Mode n = 0x180"
    by blast
  from m y dn have "Data n = ''yaml''"
    by simp
  moreover from mo i j have "Mode n = 0x180"
    by simp
  ultimately have "n = \<lparr>Mode = 0x180, Data = ''yaml''\<rparr>"
    by (cases n) simp
  with n j have fl: "files (snd ?W) ''/c/dev.yml'' = Inr \<lparr>Mode = 0x180, Data = ''yaml''\<rparr>"
    by simp
  have dr: "files (snd ?W) ''/c'' = Inr \<lparr>Mode = 0x800001C0, Data = []\<rparr>"
    by code_simp
  from f j fl dr show ?thesis
    by simp
qed



end
